theory Spec2Isabelle
  imports Main
begin

section \<open>Go values shared by both source files\<close>

text \<open>
  A Go \<^verbatim>\<open>error\<close> is modelled by its message; a nil error is \<open>None\<close>.  A pointer
  \<^verbatim>\<open>*T\<close> is a \<open>T option\<close>, nil being \<open>None\<close>.  A run-time panic (nil dereference,
  failed type assertion, index out of range, call of a nil function) is the value
  \<open>Panic\<close>; a normal return is \<open>Return\<close>.
\<close>

type_synonym err = string

datatype 'a go = Panic | Return 'a

definition StatusNotFound :: int where
  "StatusNotFound = 404"

definition StatusNoContent :: int where
  "StatusNoContent = 204"

section \<open>The generated client: \<^verbatim>\<open>AuthenticationStrengthPoliciesClient\<close>\<close>

text \<open>
  The struct \<^verbatim>\<open>AuthenticationStrengthPolicy\<close> is declared outside the source files at
  hand; \<^verbatim>\<open>Update\<close> reads only its \<^verbatim>\<open>ID\<close> field and hands the whole value to
  \<^verbatim>\<open>json.Marshal\<close>, so the remaining fields are kept as an opaque payload.
\<close>

record 'p AuthenticationStrengthPolicy =
  PolicyID :: "string option"
  PolicyFields :: 'p

datatype ConsistencyFailureFunc = RetryOn404ConsistencyFailureFunc

record PatchHttpRequestInput =
  Body :: string
  ConsistencyFailure :: "ConsistencyFailureFunc option"
  ValidStatusCodes :: "int list"
  UriEntity :: string

text \<open>
  The transport (\<^verbatim>\<open>BaseClient\<close>) is an external collaborator.  Its state is the list
  of requests issued so far; what the remote answers to a request is a function of that
  history and of the request.  \<^verbatim>\<open>BaseClient.Patch\<close> issues one request: it asks the
  remote and appends the request to the history.
\<close>

type_synonym http_history = "PatchHttpRequestInput list"

type_synonym http_remote = "http_history \<Rightarrow> PatchHttpRequestInput \<Rightarrow> int \<times> err option"

definition Patch :: "http_remote \<Rightarrow> PatchHttpRequestInput \<Rightarrow> http_history
    \<Rightarrow> (int \<times> err option) \<times> http_history" where
  "Patch remote input h = (remote h input, h @ [input])"

text \<open>
  \<^verbatim>\<open>Update\<close> (part_000, lines 117--142).  \<open>marshal\<close> stands for \<^verbatim>\<open>json.Marshal\<close>;
  \<^verbatim>\<open>var status int\<close> starts at zero.
\<close>

definition Update :: "('p AuthenticationStrengthPolicy \<Rightarrow> err + string) \<Rightarrow> http_remote
    \<Rightarrow> 'p AuthenticationStrengthPolicy \<Rightarrow> http_history \<Rightarrow> (int \<times> err option) \<times> http_history" where
  "Update marshal remote policy h =
     (let status = 0 in
      case PolicyID policy of
        None \<Rightarrow> ((status, Some ''cannot update AuthenticationStrengthPolicy with nil ID''), h)
      | Some pid \<Rightarrow>
          (case marshal policy of
             Inl e \<Rightarrow> ((status, Some (''json.Marshal(): '' @ e)), h)
           | Inr body \<Rightarrow>
               (let ((status, err), h') =
                      Patch remote
                        \<lparr>Body = body,
                         ConsistencyFailure = Some RetryOn404ConsistencyFailureFunc,
                         ValidStatusCodes = [StatusNoContent],
                         UriEntity = ''/policies/authenticationStrengthPolicies/'' @ pid\<rparr> h
                in case err of
                     Some e \<Rightarrow>
                       ((status, Some (''AuthenticationStrengthPoliciesClient.BaseClient.Patch(): '' @ e)), h')
                   | None \<Rightarrow> ((status, None), h'))))"

section \<open>The resource controller: data\<close>

text \<open>
  Values held in the resource data (\<^verbatim>\<open>interface{}\<close> in the source): nil, a bool, a
  string or a list.  A nested block is a list of \<^verbatim>\<open>map[string]interface{}\<close>; indexing a
  Go map at a missing key gives the nil interface, and \<^verbatim>\<open>x.(bool)\<close> panics unless \<open>x\<close>
  holds a bool.  \<^verbatim>\<open>reflect.DeepEqual\<close> on these values is structural equality.
\<close>

datatype tfval = VNil | VBool bool | VString string | VList "tfval list"

type_synonym tfblock = "string \<rightharpoonup> tfval"

definition index :: "tfblock \<Rightarrow> string \<Rightarrow> tfval" where
  "index m k = (case m k of None \<Rightarrow> VNil | Some v \<Rightarrow> v)"

definition assertBool :: "tfval \<Rightarrow> bool go" where
  "assertBool v = (case v of VBool b \<Rightarrow> Return b | _ \<Rightarrow> Panic)"

definition DeepEqual :: "tfval \<Rightarrow> tfval \<Rightarrow> bool" where
  "DeepEqual a b = (a = b)"

text \<open>
  The \<^verbatim>\<open>msgraph\<close> structs of the two location subtypes are declared outside the source
  files at hand.  The source shows the embedded pointer to the base struct (with \<^verbatim>\<open>ID\<close>
  and \<^verbatim>\<open>DisplayName\<close>) and the field \<^verbatim>\<open>IsTrusted\<close>; the other fields carry the
  ranges and the countries.
\<close>

record BaseauthenticationStrength =
  ID :: "string option"
  DisplayName :: "string option"

record IPauthenticationStrength =
  IPBase :: "BaseauthenticationStrength option"
  IpRanges :: "string list option"
  IsTrusted :: "bool option"

record CountryauthenticationStrength =
  CountryBase :: "BaseauthenticationStrength option"
  CountriesAndRegions :: "string list option"
  IncludeUnknownCountriesAndRegions :: "bool option"

text \<open>
  The value behind the interface returned by \<^verbatim>\<open>client.Get\<close>: one of the two subtypes,
  or a value of any other dynamic type (named by a tag).
\<close>

datatype NamedLocation =
    IPLocation IPauthenticationStrength
  | CountryLocation CountryauthenticationStrength
  | OtherLocation string

text \<open>
  \<^verbatim>\<open>*schema.ResourceData\<close>: the identifier and the fields the controller reads and
  writes.  An unset block is the empty list (\<^verbatim>\<open>GetOk\<close> reports a zero value as not set).
\<close>

record ResourceData =
  ResourceId :: string
  display_name :: "string option"
  ip :: "tfblock list"
  country :: "tfblock list"
  HasChange_display_name :: bool

definition GetOk :: "tfblock list \<Rightarrow> tfblock list \<times> bool" where
  "GetOk v = (v, v \<noteq> [])"

definition GetString :: "string option \<Rightarrow> string" where
  "GetString v = (case v of None \<Rightarrow> [] | Some s \<Rightarrow> s)"

text \<open>
  \<^verbatim>\<open>diag.Diagnostics\<close>: nil is the empty list.  \<^verbatim>\<open>tf.ErrorDiagF\<close> and
  \<^verbatim>\<open>tf.ErrorDiagPathF\<close> build one error diagnostic from the cause, an optional
  attribute path, the format string and its arguments.
\<close>

datatype fmtarg = ArgString string | ArgInt int | ArgErr err

record Diagnostic =
  Cause :: err
  AttributePath :: "string option"
  Format :: string
  Args :: "fmtarg list"

type_synonym Diagnostics = "Diagnostic list"

definition ErrorDiagF :: "err \<Rightarrow> string \<Rightarrow> fmtarg list \<Rightarrow> Diagnostics" where
  "ErrorDiagF e f as = [\<lparr>Cause = e, AttributePath = None, Format = f, Args = as\<rparr>]"


section \<open>The resource controller: the named-location client\<close>

text \<open>
  The client the controller talks to is an external collaborator.  Its state is the
  shared flag \<^verbatim>\<open>BaseClient.DisableRetries\<close> and the history of the calls made so far,
  each with the value the flag had when the call was made.  What the remote answers is
  a function of the client state at the call and of the call's argument.
\<close>

datatype call =
    CreateIPCall IPauthenticationStrength
  | CreateCountryCall CountryauthenticationStrength
  | UpdateIPCall IPauthenticationStrength
  | UpdateCountryCall CountryauthenticationStrength
  | GetIPCall string
  | GetCountryCall string
  | GetCall string
  | DeleteCall string

record Client =
  DisableRetries :: bool
  History :: "(call \<times> bool) list"

record Remote =
  answerCreateIP :: "Client \<Rightarrow> IPauthenticationStrength
      \<Rightarrow> IPauthenticationStrength option \<times> int \<times> err option"
  answerCreateCountry :: "Client \<Rightarrow> CountryauthenticationStrength
      \<Rightarrow> CountryauthenticationStrength option \<times> int \<times> err option"
  answerUpdateIP :: "Client \<Rightarrow> IPauthenticationStrength \<Rightarrow> int \<times> err option"
  answerUpdateCountry :: "Client \<Rightarrow> CountryauthenticationStrength \<Rightarrow> int \<times> err option"
  answerGetIP :: "Client \<Rightarrow> string \<Rightarrow> IPauthenticationStrength option \<times> int \<times> err option"
  answerGetCountry :: "Client \<Rightarrow> string
      \<Rightarrow> CountryauthenticationStrength option \<times> int \<times> err option"
  answerGet :: "Client \<Rightarrow> string \<Rightarrow> NamedLocation option \<times> int \<times> err option"
  answerDelete :: "Client \<Rightarrow> string \<Rightarrow> int \<times> err option"

definition issue :: "call \<Rightarrow> Client \<Rightarrow> Client" where
  "issue k c = c\<lparr>History := History c @ [(k, DisableRetries c)]\<rparr>"

definition CreateIP :: "Remote \<Rightarrow> IPauthenticationStrength \<Rightarrow> Client
    \<Rightarrow> (IPauthenticationStrength option \<times> int \<times> err option) \<times> Client" where
  "CreateIP r p c = (answerCreateIP r c p, issue (CreateIPCall p) c)"

definition CreateCountry :: "Remote \<Rightarrow> CountryauthenticationStrength \<Rightarrow> Client
    \<Rightarrow> (CountryauthenticationStrength option \<times> int \<times> err option) \<times> Client" where
  "CreateCountry r p c = (answerCreateCountry r c p, issue (CreateCountryCall p) c)"

definition UpdateIP :: "Remote \<Rightarrow> IPauthenticationStrength \<Rightarrow> Client
    \<Rightarrow> (int \<times> err option) \<times> Client" where
  "UpdateIP r p c = (answerUpdateIP r c p, issue (UpdateIPCall p) c)"

definition UpdateCountry :: "Remote \<Rightarrow> CountryauthenticationStrength \<Rightarrow> Client
    \<Rightarrow> (int \<times> err option) \<times> Client" where
  "UpdateCountry r p c = (answerUpdateCountry r c p, issue (UpdateCountryCall p) c)"

definition GetIP :: "Remote \<Rightarrow> string \<Rightarrow> Client
    \<Rightarrow> (IPauthenticationStrength option \<times> int \<times> err option) \<times> Client" where
  "GetIP r i c = (answerGetIP r c i, issue (GetIPCall i) c)"

definition GetCountry :: "Remote \<Rightarrow> string \<Rightarrow> Client
    \<Rightarrow> (CountryauthenticationStrength option \<times> int \<times> err option) \<times> Client" where
  "GetCountry r i c = (answerGetCountry r c i, issue (GetCountryCall i) c)"

definition Get :: "Remote \<Rightarrow> string \<Rightarrow> Client
    \<Rightarrow> (NamedLocation option \<times> int \<times> err option) \<times> Client" where
  "Get r i c = (answerGet r c i, issue (GetCall i) c)"


section \<open>The resource controller: helpers outside the source files\<close>

text \<open>
  The expand and flatten helpers and the two polling primitives
  (\<^verbatim>\<open>StateChangeConf.WaitForStateContext\<close> of the plugin SDK and
  \<^verbatim>\<open>helpers.WaitForDeletion\<close>) are not among the source files; the controller is
  modelled for any such helpers, which it takes as arguments.  The expand helpers
  return a pointer.
\<close>

record Helpers =
  expandIPauthenticationStrength :: "tfblock list \<Rightarrow> IPauthenticationStrength option"
  expandCountryauthenticationStrength :: "tfblock list \<Rightarrow> CountryauthenticationStrength option"
  flattenIPauthenticationStrength :: "IPauthenticationStrength option \<Rightarrow> tfblock list"
  flattenCountryauthenticationStrength :: "CountryauthenticationStrength option \<Rightarrow> tfblock list"

type_synonym StateRefreshFunc =
  "Client \<Rightarrow> ((string option \<times> string \<times> err option) \<times> Client) go"

record StateChangeConf =
  Pending :: "string list"
  Target :: "string list"
  Timeout :: int
  MinTimeout :: int
  ContinuousTargetOccurence :: int
  Refresh :: "StateRefreshFunc option"

type_synonym WaitForStateContext = "StateChangeConf \<Rightarrow> Client \<Rightarrow> (err option \<times> Client) go"

type_synonym ChangeFunc = "Client \<Rightarrow> (bool option \<times> err option) \<times> Client"

type_synonym DeletionWait = "ChangeFunc \<Rightarrow> Client \<Rightarrow> err option \<times> Client"

definition Second :: int where
  "Second = 1000000000"

text \<open>
  Modelled from the spec: the state-refresh polling primitive (section 4.1) in its use
  for delete confirmation (section 4.3); \<^verbatim>\<open>helpers.WaitForDeletion\<close> is not among the
  source files.  The probe is invoked on a fixed cadence; the first argument is the
  number of probes that fit before the timeout, \<open>need\<close> the required number of
  consecutive observations of the target state (the resource is gone), \<open>seen\<close> the
  count of them so far.  A probe error aborts at once; the target state increments the
  count and succeeds once it reaches \<open>need\<close>; the pending state (the resource still
  exists) and an unrecognised answer reset it, and the wait goes on until the timeout.
\<close>

fun WaitForDeletion :: "nat \<Rightarrow> nat \<Rightarrow> nat \<Rightarrow> DeletionWait" where
  "WaitForDeletion 0 need seen f c = (Some ''timeout while waiting for deletion'', c)"
| "WaitForDeletion (Suc n) need seen f c =
     (case f c of
        ((exists, Some e), c') \<Rightarrow> (Some e, c')
      | ((exists, None), c') \<Rightarrow>
          if exists = Some False
          then (if need \<le> Suc seen then (None, c') else WaitForDeletion n need (Suc seen) f c')
          else WaitForDeletion n need 0 f c')"

section \<open>The resource controller: read\<close>

text \<open>
  \<^verbatim>\<open>authenticationStrengthResourceRead\<close> (part_000, lines 360--396).  The two type
  assertions on the fetched value are two \<^verbatim>\<open>if\<close> statements in sequence; each either
  returns a diagnostic (\<open>Inl\<close>) or hands on the resource data (\<open>Inr\<close>).
\<close>

definition readIP :: "Helpers \<Rightarrow> NamedLocation \<Rightarrow> ResourceData
    \<Rightarrow> (Diagnostics + ResourceData) go" where
  "readIP hp location d =
     (case location of
        IPLocation ipnl \<Rightarrow>
          (case IPBase ipnl of
             None \<Rightarrow> Panic
           | Some b \<Rightarrow>
               (case ID b of
                  None \<Rightarrow> Return (Inl (ErrorDiagF ''Bad API response''
                                    ''ID is nil for returned IP Named Location'' []))
                | Some i \<Rightarrow> Return (Inr (d\<lparr>ResourceId := i,
                                            display_name := DisplayName b,
                                            ip := flattenIPauthenticationStrength hp (Some ipnl)\<rparr>))))
      | _ \<Rightarrow> Return (Inr d))"

definition readCountry :: "Helpers \<Rightarrow> NamedLocation \<Rightarrow> ResourceData
    \<Rightarrow> (Diagnostics + ResourceData) go" where
  "readCountry hp location d =
     (case location of
        CountryLocation cnl \<Rightarrow>
          (case CountryBase cnl of
             None \<Rightarrow> Panic
           | Some b \<Rightarrow>
               (case ID b of
                  None \<Rightarrow> Return (Inl (ErrorDiagF ''Bad API response''
                                    ''ID is nil for returned Country Named Location'' []))
                | Some i \<Rightarrow> Return (Inr (d\<lparr>ResourceId := i,
                                            display_name := DisplayName b,
                                            country := flattenCountryauthenticationStrength hp (Some cnl)\<rparr>))))
      | _ \<Rightarrow> Return (Inr d))"

definition authenticationStrengthResourceRead :: "Remote \<Rightarrow> Helpers \<Rightarrow> ResourceData \<Rightarrow> Client
    \<Rightarrow> (Diagnostics \<times> ResourceData \<times> Client) go" where
  "authenticationStrengthResourceRead r hp d c =
     (let ((result, status, err), c1) = Get r (ResourceId d) c in
      if err \<noteq> None \<and> status = StatusNotFound then Return ([], d\<lparr>ResourceId := []\<rparr>, c1)
      else
        (case result of
           None \<Rightarrow> Return (ErrorDiagF ''Bad API response'' ''Result is nil'' [], d, c1)
         | Some location \<Rightarrow>
             (case readIP hp location d of
                Panic \<Rightarrow> Panic
              | Return (Inl ds) \<Rightarrow> Return (ds, d, c1)
              | Return (Inr d1) \<Rightarrow>
                  (case readCountry hp location d1 of
                     Panic \<Rightarrow> Panic
                   | Return (Inl ds) \<Rightarrow> Return (ds, d1, c1)
                   | Return (Inr d2) \<Rightarrow> Return ([], d2, c1)))))"

section \<open>The resource controller: create\<close>

text \<open>
  \<^verbatim>\<open>authenticationStrengthResourceCreate\<close> (part_000, lines 232--269).  The source
  uses an identifier \<^verbatim>\<open>base\<close> that it does not declare; it is an argument here.  The
  two values read at its start (\<^verbatim>\<open>displayName\<close>, \<^verbatim>\<open>description\<close>) are not used.
  The created value is dereferenced without a nil check.
\<close>

definition createdID :: "BaseauthenticationStrength option \<Rightarrow> (Diagnostics + string) go" where
  "createdID bp =
     (case bp of
        None \<Rightarrow> Panic
      | Some b \<Rightarrow>
          (if ID b = None \<or> ID b = Some []
           then Return (Inl (ErrorDiagF ''Bad API response''
                        ''Object ID returned for named location is nil/empty'' []))
           else Return (Inr (the (ID b)))))"

definition authenticationStrengthResourceCreate :: "Remote \<Rightarrow> Helpers
    \<Rightarrow> BaseauthenticationStrength \<Rightarrow> ResourceData \<Rightarrow> Client
    \<Rightarrow> (Diagnostics \<times> ResourceData \<times> Client) go" where
  "authenticationStrengthResourceCreate r hp base d c =
     (if snd (GetOk (ip d)) then
        (case expandIPauthenticationStrength hp (fst (GetOk (ip d))) of
           None \<Rightarrow> Panic
         | Some properties \<Rightarrow>
             (let ((ipLocation, _, err), c1) = CreateIP r (properties\<lparr>IPBase := Some base\<rparr>) c in
              case err of
                Some e \<Rightarrow> Return (ErrorDiagF e ''Could not create named location'' [], d, c1)
              | None \<Rightarrow>
                  (case ipLocation of
                     None \<Rightarrow> Panic
                   | Some l \<Rightarrow>
                       (case createdID (IPBase l) of
                          Panic \<Rightarrow> Panic
                        | Return (Inl ds) \<Rightarrow> Return (ds, d, c1)
                        | Return (Inr i) \<Rightarrow>
                            authenticationStrengthResourceRead r hp (d\<lparr>ResourceId := i\<rparr>) c1))))
      else if snd (GetOk (country d)) then
        (case expandCountryauthenticationStrength hp (fst (GetOk (country d))) of
           None \<Rightarrow> Panic
         | Some properties \<Rightarrow>
             (let ((countryLocation, _, err), c1) =
                    CreateCountry r (properties\<lparr>CountryBase := Some base\<rparr>) c in
              case err of
                Some e \<Rightarrow> Return (ErrorDiagF e ''Could not create named location'' [], d, c1)
              | None \<Rightarrow>
                  (case countryLocation of
                     None \<Rightarrow> Panic
                   | Some l \<Rightarrow>
                       (case createdID (CountryBase l) of
                          Panic \<Rightarrow> Panic
                        | Return (Inl ds) \<Rightarrow> Return (ds, d, c1)
                        | Return (Inr i) \<Rightarrow>
                            authenticationStrengthResourceRead r hp (d\<lparr>ResourceId := i\<rparr>) c1))))
      else Return (ErrorDiagF ''one of `ip` or `country` must be specified''
                     ''Unable to determine named location type'' [], d, c))"

section \<open>The resource controller: delete\<close>

text \<open>
  The closure handed to \<^verbatim>\<open>helpers.WaitForDeletion\<close> (part_000, lines 441--451).  The
  deferred function runs when the closure returns, on every path.  The returned
  \<^verbatim>\<open>*bool\<close> says whether the resource still exists.
\<close>

definition deletionProbe :: "Remote \<Rightarrow> string \<Rightarrow> ChangeFunc" where
  "deletionProbe r authenticationStrengthId c =
     (let c1 = c\<lparr>DisableRetries := True\<rparr>;
          ((_, status, err), c2) = Get r authenticationStrengthId c1;
          ret = (case err of
                   Some e \<Rightarrow> if status = StatusNotFound then (Some False, None) else (None, Some e)
                 | None \<Rightarrow> (Some True, None))
      in (ret, c2\<lparr>DisableRetries := False\<rparr>))"





section \<open>The resource controller: update\<close>

text \<open>
  The two refresh closures of \<^verbatim>\<open>authenticationStrengthResourceUpdate\<close> (part_000,
  lines 293--311 and 322--340).  \<open>v\<close> is the configured block the closure captured.  The
  source tests \<^verbatim>\<open>len(locationRaw) > 0\<close> and then reads \<^verbatim>\<open>locationRaw[0]\<close>; reading
  \<^verbatim>\<open>v[0]\<close> of an empty list panics.
\<close>

definition updateRefreshFuncIP :: "Remote \<Rightarrow> Helpers \<Rightarrow> string \<Rightarrow> tfblock list
    \<Rightarrow> StateRefreshFunc" where
  "updateRefreshFuncIP r hp i v c =
     (let ((result, _, err), c1) = GetIP r i c in
      case err of
        Some e \<Rightarrow> Return ((None, ''Error'', Some e), c1)
      | None \<Rightarrow>
          (case flattenIPauthenticationStrength hp result of
             [] \<Rightarrow> Return ((Some ''stub'', ''Updated'', None), c1)
           | location # _ \<Rightarrow>
               (case v of
                  [] \<Rightarrow> Panic
                | ip' # _ \<Rightarrow>
                    if \<not> DeepEqual (index location ''ip_ranges'') (index ip' ''ip_ranges'')
                    then Return ((Some ''stub'', ''Pending'', None), c1)
                    else
                      (case assertBool (index location ''trusted'') of
                         Panic \<Rightarrow> Panic
                       | Return a \<Rightarrow>
                           (case assertBool (index ip' ''trusted'') of
                              Panic \<Rightarrow> Panic
                            | Return b \<Rightarrow>
                                if a \<noteq> b then Return ((Some ''stub'', ''Pending'', None), c1)
                                else Return ((Some ''stub'', ''Updated'', None), c1))))))"

definition updateRefreshFuncCountry :: "Remote \<Rightarrow> Helpers \<Rightarrow> string \<Rightarrow> tfblock list
    \<Rightarrow> StateRefreshFunc" where
  "updateRefreshFuncCountry r hp i v c =
     (let ((result, _, err), c1) = GetCountry r i c in
      case err of
        Some e \<Rightarrow> Return ((None, ''Error'', Some e), c1)
      | None \<Rightarrow>
          (case flattenCountryauthenticationStrength hp result of
             [] \<Rightarrow> Return ((Some ''stub'', ''Updated'', None), c1)
           | location # _ \<Rightarrow>
               (case v of
                  [] \<Rightarrow> Panic
                | ip' # _ \<Rightarrow>
                    if \<not> DeepEqual (index location ''countries_and_regions'')
                                   (index ip' ''countries_and_regions'')
                    then Return ((Some ''stub'', ''Pending'', None), c1)
                    else
                      (case assertBool (index location ''include_unknown_countries_and_regions'') of
                         Panic \<Rightarrow> Panic
                       | Return a \<Rightarrow>
                           (case assertBool (index ip' ''include_unknown_countries_and_regions'') of
                              Panic \<Rightarrow> Panic
                            | Return b \<Rightarrow>
                                if a \<noteq> b then Return ((Some ''stub'', ''Pending'', None), c1)
                                else Return ((Some ''stub'', ''Updated'', None), c1))))))"

text \<open>
  \<^verbatim>\<open>authenticationStrengthResourceUpdate\<close> (part_000, lines 271--358).  Each of the two
  blocks either returns diagnostics (\<open>Inl\<close>) or hands on the refresh function chosen so
  far (\<open>Inr\<close>).  \<open>remaining\<close> is \<^verbatim>\<open>time.Until(timeout)\<close>.
\<close>

definition updateBase :: "ResourceData \<Rightarrow> BaseauthenticationStrength" where
  "updateBase d =
     (let base = \<lparr>ID = Some (ResourceId d), DisplayName = None\<rparr> in
      if HasChange_display_name d
      then base\<lparr>DisplayName := Some (GetString (display_name d))\<rparr>
      else base)"

definition updateIP :: "Remote \<Rightarrow> Helpers \<Rightarrow> ResourceData \<Rightarrow> StateRefreshFunc option \<Rightarrow> Client
    \<Rightarrow> ((Diagnostics + StateRefreshFunc option) \<times> Client) go" where
  "updateIP r hp d updateRefreshFunc c =
     (let (v, ok) = GetOk (ip d) in
      if ok then
        (case expandIPauthenticationStrength hp v of
           None \<Rightarrow> Panic
         | Some properties \<Rightarrow>
             (let ((_, err), c1) = UpdateIP r (properties\<lparr>IPBase := Some (updateBase d)\<rparr>) c in
              case err of
                Some e \<Rightarrow>
                  Return (Inl (ErrorDiagF e ''Could not update named location with ID %q: %+v''
                                 [ArgString (ResourceId d), ArgErr e]), c1)
              | None \<Rightarrow> Return (Inr (Some (updateRefreshFuncIP r hp (ResourceId d) v)), c1)))
      else Return (Inr updateRefreshFunc, c))"

definition updateCountry :: "Remote \<Rightarrow> Helpers \<Rightarrow> ResourceData \<Rightarrow> StateRefreshFunc option
    \<Rightarrow> Client \<Rightarrow> ((Diagnostics + StateRefreshFunc option) \<times> Client) go" where
  "updateCountry r hp d updateRefreshFunc c =
     (let (v, ok) = GetOk (country d) in
      if ok then
        (case expandCountryauthenticationStrength hp v of
           None \<Rightarrow> Panic
         | Some properties \<Rightarrow>
             (let ((_, err), c1) =
                    UpdateCountry r (properties\<lparr>CountryBase := Some (updateBase d)\<rparr>) c in
              case err of
                Some e \<Rightarrow>
                  Return (Inl (ErrorDiagF e ''Could not update named location with ID %q: %+v''
                                 [ArgString (ResourceId d), ArgErr e]), c1)
              | None \<Rightarrow> Return (Inr (Some (updateRefreshFuncCountry r hp (ResourceId d) v)), c1)))
      else Return (Inr updateRefreshFunc, c))"

definition stateConf :: "int \<Rightarrow> StateRefreshFunc option \<Rightarrow> StateChangeConf" where
  "stateConf remaining updateRefreshFunc =
     \<lparr>Pending = [''Pending''],
      Target = [''Updated''],
      Timeout = remaining,
      MinTimeout = 5 * Second,
      ContinuousTargetOccurence = 5,
      Refresh = updateRefreshFunc\<rparr>"

definition authenticationStrengthResourceUpdate :: "WaitForStateContext \<Rightarrow> Remote \<Rightarrow> Helpers
    \<Rightarrow> int \<Rightarrow> ResourceData \<Rightarrow> Client \<Rightarrow> (Diagnostics \<times> ResourceData \<times> Client) go" where
  "authenticationStrengthResourceUpdate waitForStateContext r hp remaining d c =
     (case updateIP r hp d None c of
        Panic \<Rightarrow> Panic
      | Return (Inl ds, c1) \<Rightarrow> Return (ds, d, c1)
      | Return (Inr f1, c1) \<Rightarrow>
          (case updateCountry r hp d f1 c1 of
             Panic \<Rightarrow> Panic
           | Return (Inl ds, c2) \<Rightarrow> Return (ds, d, c2)
           | Return (Inr f2, c2) \<Rightarrow>
               (case waitForStateContext (stateConf remaining f2) c2 of
                  Panic \<Rightarrow> Panic
                | Return (Some e, c3) \<Rightarrow>
                    Return (ErrorDiagF e ''waiting for update of named location with ID %q''
                              [ArgString (ResourceId d)], d, c3)
                | Return (None, c3) \<Rightarrow> authenticationStrengthResourceRead r hp d c3)))"

section \<open>Concrete inputs\<close>

text \<open>
  Inputs for the concrete runs below: helpers that expand and flatten the two blocks
  field by field, an IP-based location \<open>loc1\<close> and a country-based location \<open>loc2\<close>,
  and a remote that answers every call successfully.
\<close>

definition stringOf :: "tfval \<Rightarrow> string" where
  "stringOf v = (case v of VString s \<Rightarrow> s | _ \<Rightarrow> [])"

definition exampleHelpers :: Helpers where
  "exampleHelpers =
     \<lparr>expandIPauthenticationStrength = (\<lambda>v. case v of
          [] \<Rightarrow> None
        | m # _ \<Rightarrow> Some \<lparr>IPBase = None,
                         IpRanges = (case index m ''ip_ranges'' of
                                       VList xs \<Rightarrow> Some (map stringOf xs) | _ \<Rightarrow> None),
                         IsTrusted = (case index m ''trusted'' of
                                        VBool t \<Rightarrow> Some t | _ \<Rightarrow> None)\<rparr>),
      expandCountryauthenticationStrength = (\<lambda>v. case v of
          [] \<Rightarrow> None
        | m # _ \<Rightarrow> Some \<lparr>CountryBase = None,
                         CountriesAndRegions = (case index m ''countries_and_regions'' of
                                       VList xs \<Rightarrow> Some (map stringOf xs) | _ \<Rightarrow> None),
                         IncludeUnknownCountriesAndRegions =
                           (case index m ''include_unknown_countries_and_regions'' of
                                        VBool t \<Rightarrow> Some t | _ \<Rightarrow> None)\<rparr>),
      flattenIPauthenticationStrength = (\<lambda>p. case p of
          None \<Rightarrow> []
        | Some l \<Rightarrow> [[''ip_ranges'' \<mapsto> VList (map VString (case IpRanges l of
                                                  None \<Rightarrow> [] | Some xs \<Rightarrow> xs)),
                      ''trusted'' \<mapsto> VBool (IsTrusted l = Some True)]]),
      flattenCountryauthenticationStrength = (\<lambda>p. case p of
          None \<Rightarrow> []
        | Some l \<Rightarrow> [[''countries_and_regions'' \<mapsto>
                        VList (map VString (case CountriesAndRegions l of
                                              None \<Rightarrow> [] | Some xs \<Rightarrow> xs)),
                      ''include_unknown_countries_and_regions'' \<mapsto>
                        VBool (IncludeUnknownCountriesAndRegions l = Some True)]])\<rparr>"

definition emptyClient :: Client where
  "emptyClient = \<lparr>DisableRetries = False, History = []\<rparr>"

definition officeBlock :: "bool \<Rightarrow> tfblock" where
  "officeBlock t = [''ip_ranges'' \<mapsto> VList [VString ''10.0.0.0/8''], ''trusted'' \<mapsto> VBool t]"

definition officeLocation :: "string \<Rightarrow> bool \<Rightarrow> IPauthenticationStrength" where
  "officeLocation name t =
     \<lparr>IPBase = Some \<lparr>ID = Some ''loc1'', DisplayName = Some name\<rparr>,
      IpRanges = Some [''10.0.0.0/8''],
      IsTrusted = Some t\<rparr>"

definition homeBlock :: tfblock where
  "homeBlock = [''countries_and_regions'' \<mapsto> VList [VString ''NZ''],
                ''include_unknown_countries_and_regions'' \<mapsto> VBool False]"

definition homeLocation :: "string list \<Rightarrow> CountryauthenticationStrength" where
  "homeLocation cs =
     \<lparr>CountryBase = Some \<lparr>ID = Some ''loc2'', DisplayName = Some ''home''\<rparr>,
      CountriesAndRegions = Some cs,
      IncludeUnknownCountriesAndRegions = Some False\<rparr>"

definition officeData :: ResourceData where
  "officeData = \<lparr>ResourceId = ''loc1'', display_name = Some ''office'', ip = [officeBlock True],
                  country = [], HasChange_display_name = True\<rparr>"

definition homeData :: ResourceData where
  "homeData = \<lparr>ResourceId = ''loc2'', display_name = Some ''home'', ip = [],
                country = [homeBlock], HasChange_display_name = False\<rparr>"

definition unsetData :: "string \<Rightarrow> ResourceData" where
  "unsetData i = \<lparr>ResourceId = i, display_name = None, ip = [], country = [],
                  HasChange_display_name = False\<rparr>"

definition notFound :: "'a option \<times> int \<times> err option" where
  "notFound = (None, 404, Some ''404 Not Found'')"

definition exampleRemote :: Remote where
  "exampleRemote =
     \<lparr>answerCreateIP = (\<lambda>c p.
        (Some (p\<lparr>IPBase := Some \<lparr>ID = Some ''loc1'', DisplayName = None\<rparr>\<rparr>), 201, None)),
      answerCreateCountry = (\<lambda>c p.
        (Some (p\<lparr>CountryBase := Some \<lparr>ID = Some ''loc2'', DisplayName = None\<rparr>\<rparr>), 201, None)),
      answerUpdateIP = (\<lambda>c p. (204, None)),
      answerUpdateCountry = (\<lambda>c p. (204, None)),
      answerGetIP = (\<lambda>c i. (Some (officeLocation ''office'' True), 200, None)),
      answerGetCountry = (\<lambda>c i. (Some (homeLocation [''NZ'']), 200, None)),
      answerGet = (\<lambda>c i. (Some (IPLocation (officeLocation ''office'' True)), 200, None)),
      answerDelete = (\<lambda>c i. (204, None))\<rparr>"

text \<open>A remote on which the location stays visible for two reads and is gone after.\<close>

definition fadingRemote :: Remote where
  "fadingRemote = exampleRemote\<lparr>answerGet := \<lambda>c i.
      if length (History c) < 2
      then (Some (IPLocation (officeLocation ''office'' True)), 200, None)
      else notFound\<rparr>"

text \<open>A remote on which a location is gone once its deletion has been requested.\<close>

definition deletableRemote :: Remote where
  "deletableRemote = exampleRemote\<lparr>answerGet := \<lambda>c i.
      if DeleteCall i \<in> fst ` set (History c) then notFound
      else (Some (IPLocation (officeLocation ''office'' True)), 200, None)\<rparr>"

text \<open>
  A remote whose first typed read still shows the state before the update (not trusted,
  no countries) and whose later reads show the updated state.
\<close>

definition convergingRemote :: Remote where
  "convergingRemote = exampleRemote\<lparr>
      answerGetIP := \<lambda>c i. (Some (officeLocation ''office'' (History c \<noteq> [])), 200, None),
      answerGetCountry := \<lambda>c i.
        (Some (homeLocation (if History c = [] then [] else [''NZ''])), 200, None)\<rparr>"

text \<open>A remote whose typed read shows the display name from before the update.\<close>

definition renamedRemote :: Remote where
  "renamedRemote = exampleRemote\<lparr>answerGetIP := \<lambda>c i.
      (Some (officeLocation ''old name'' True), 200, None)\<rparr>"

section \<open>Auxiliary facts\<close>

lemma issue_simps:
  "DisableRetries (issue k c) = DisableRetries c"
  "History (issue k c) = History c @ [(k, DisableRetries c)]"
  by (simp_all add: issue_def)

lemma exampleHelpers_simps:
  "expandIPauthenticationStrength exampleHelpers [] = None"
  "expandIPauthenticationStrength exampleHelpers (m # ms) =
     Some \<lparr>IPBase = None,
           IpRanges = (case index m ''ip_ranges'' of
                         VList xs \<Rightarrow> Some (map stringOf xs) | _ \<Rightarrow> None),
           IsTrusted = (case index m ''trusted'' of VBool t \<Rightarrow> Some t | _ \<Rightarrow> None)\<rparr>"
  "expandCountryauthenticationStrength exampleHelpers [] = None"
  "expandCountryauthenticationStrength exampleHelpers (m # ms) =
     Some \<lparr>CountryBase = None,
           CountriesAndRegions = (case index m ''countries_and_regions'' of
                         VList xs \<Rightarrow> Some (map stringOf xs) | _ \<Rightarrow> None),
           IncludeUnknownCountriesAndRegions =
             (case index m ''include_unknown_countries_and_regions'' of
                VBool t \<Rightarrow> Some t | _ \<Rightarrow> None)\<rparr>"
  "flattenIPauthenticationStrength exampleHelpers None = []"
  "flattenIPauthenticationStrength exampleHelpers (Some l) =
     [[''ip_ranges'' \<mapsto> VList (map VString (case IpRanges l of None \<Rightarrow> [] | Some xs \<Rightarrow> xs)),
       ''trusted'' \<mapsto> VBool (IsTrusted l = Some True)]]"
  "flattenCountryauthenticationStrength exampleHelpers None = []"
  "flattenCountryauthenticationStrength exampleHelpers (Some k) =
     [[''countries_and_regions'' \<mapsto>
         VList (map VString (case CountriesAndRegions k of None \<Rightarrow> [] | Some xs \<Rightarrow> xs)),
       ''include_unknown_countries_and_regions'' \<mapsto>
         VBool (IncludeUnknownCountriesAndRegions k = Some True)]]"
  by (simp_all add: exampleHelpers_def)

lemma exampleRemote_simps:
  "answerCreateIP exampleRemote c p =
     (Some (p\<lparr>IPBase := Some \<lparr>ID = Some ''loc1'', DisplayName = None\<rparr>\<rparr>), 201, None)"
  "answerCreateCountry exampleRemote c q =
     (Some (q\<lparr>CountryBase := Some \<lparr>ID = Some ''loc2'', DisplayName = None\<rparr>\<rparr>), 201, None)"
  "answerUpdateIP exampleRemote c p = (204, None)"
  "answerUpdateCountry exampleRemote c q = (204, None)"
  "answerGetIP exampleRemote c i = (Some (officeLocation ''office'' True), 200, None)"
  "answerGetCountry exampleRemote c i = (Some (homeLocation [''NZ'']), 200, None)"
  "answerGet exampleRemote c i = (Some (IPLocation (officeLocation ''office'' True)), 200, None)"
  "answerDelete exampleRemote c i = (204, None)"
  by (simp_all add: exampleRemote_def)

lemmas input_simps = exampleHelpers_simps exampleRemote_simps emptyClient_def officeBlock_def
  officeLocation_def homeBlock_def homeLocation_def officeData_def homeData_def unsetData_def
  notFound_def fadingRemote_def deletableRemote_def convergingRemote_def renamedRemote_def
  stringOf_def index_def StatusNotFound_def issue_def

lemmas run_defs = authenticationStrengthResourceRead_def authenticationStrengthResourceCreate_def
  readIP_def readCountry_def createdID_def GetOk_def Get_def CreateIP_def CreateCountry_def
  ErrorDiagF_def

lemma Read_client:
  "authenticationStrengthResourceRead r hp d c = Return (ds, d', c') \<Longrightarrow>
   c' = issue (GetCall (ResourceId d)) c"
  by (auto simp add: authenticationStrengthResourceRead_def Get_def Let_def
      split: prod.splits if_splits option.splits go.splits sum.splits)

lemma Create_calls:
  assumes "authenticationStrengthResourceCreate r hp base d c = Return (ds, d', c')"
  shows "\<exists>new. History c' = History c @ new \<and> length new \<le> 2"
proof -
  have rd: "\<And>d0 c0. authenticationStrengthResourceRead r hp d0 c0 = Return (ds, d', c')
      \<Longrightarrow> History c' = History c0 @ [(GetCall (ResourceId d0), DisableRetries c0)]"
    by (drule Read_client) (simp add: issue_simps)
  show ?thesis
    using assms
    by (auto simp add: authenticationStrengthResourceCreate_def GetOk_def CreateIP_def
        CreateCountry_def issue_simps Let_def dest!: rd
        split: if_splits option.splits prod.splits go.splits sum.splits)
qed








section \<open>The update-convergence refresh functions\<close>




section \<open>The delete-confirmation probe\<close>

text \<open>
  C2.  The probe issues its read with retries disabled.  While that read succeeds it
  reports that the resource still exists (\<open>Some True\<close>, the pending answer); once the
  read fails with status 404 it reports that the resource is gone (\<open>Some False\<close>, the
  absent answer); a read that fails with any other status makes the probe return that
  error, on which the wait stops at once with that error, after this one probe.
\<close>

theorem deletionProbe_reports:
  "(answerGet r (c\<lparr>DisableRetries := True\<rparr>) i = (res, status, None)
      \<longrightarrow> fst (deletionProbe r i c) = (Some True, None)) \<and>
   (answerGet r (c\<lparr>DisableRetries := True\<rparr>) i = (res, StatusNotFound, Some e)
      \<longrightarrow> fst (deletionProbe r i c) = (Some False, None)) \<and>
   (answerGet r (c\<lparr>DisableRetries := True\<rparr>) i = (res, status, Some e) \<and>
    status \<noteq> StatusNotFound
      \<longrightarrow> fst (deletionProbe r i c) = (None, Some e) \<and>
          WaitForDeletion (Suc n) need seen (deletionProbe r i) c =
            (Some e, snd (deletionProbe r i c)))"
  by (simp add: deletionProbe_def Get_def)

text \<open>
  The read sequence found, found, not found gives pending, pending, absent; a read
  failing with status 500 gives its error and ends the wait after one probe.
\<close>

theorem deletionProbe_reports_witness:
  "fst (deletionProbe fadingRemote ''loc1'' emptyClient) = (Some True, None) \<and>
   fst (deletionProbe fadingRemote ''loc1''
          (snd (deletionProbe fadingRemote ''loc1'' emptyClient))) = (Some True, None) \<and>
   fst (deletionProbe fadingRemote ''loc1''
          (snd (deletionProbe fadingRemote ''loc1''
             (snd (deletionProbe fadingRemote ''loc1'' emptyClient))))) = (Some False, None) \<and>
   fst (deletionProbe (exampleRemote\<lparr>answerGet := \<lambda>c i. (None, 500, Some ''connection reset'')\<rparr>)
          ''loc1'' emptyClient) = (None, Some ''connection reset'') \<and>
   WaitForDeletion 5 3 0
       (deletionProbe (exampleRemote\<lparr>answerGet := \<lambda>c i. (None, 500, Some ''connection reset'')\<rparr>)
          ''loc1'') emptyClient =
     (Some ''connection reset'',
      \<lparr>DisableRetries = False, History = [(GetCall ''loc1'', True)]\<rparr>)"
proof -
  let ?c1 = "\<lparr>DisableRetries = False, History = [(GetCall ''loc1'', True)]\<rparr>"
  let ?c2 = "\<lparr>DisableRetries = False,
             History = [(GetCall ''loc1'', True), (GetCall ''loc1'', True)]\<rparr>"
  let ?broken = "exampleRemote\<lparr>answerGet := \<lambda>c i. (None, 500, Some ''connection reset'')\<rparr>"
  have s1: "snd (deletionProbe fadingRemote ''loc1'' emptyClient) = ?c1"
    by (simp add: deletionProbe_def Get_def Let_def input_simps split: prod.splits)
  have s2: "snd (deletionProbe fadingRemote ''loc1'' ?c1) = ?c2"
    by (simp add: deletionProbe_def Get_def Let_def input_simps split: prod.splits)
  have s3: "snd (deletionProbe ?broken ''loc1'' emptyClient) = ?c1"
    by (simp add: deletionProbe_def Get_def Let_def input_simps split: prod.splits)
  have 1: "fst (deletionProbe fadingRemote ''loc1'' emptyClient) = (Some True, None)"
    using deletionProbe_reports [where r = fadingRemote and c = emptyClient and i = "''loc1''"
        and res = "Some (IPLocation (officeLocation ''office'' True))" and status = 200]
    by (simp add: input_simps)
  have 2: "fst (deletionProbe fadingRemote ''loc1'' ?c1) = (Some True, None)"
    using deletionProbe_reports [where r = fadingRemote and c = ?c1 and i = "''loc1''"
        and res = "Some (IPLocation (officeLocation ''office'' True))" and status = 200]
    by (simp add: input_simps)
  have 3: "fst (deletionProbe fadingRemote ''loc1'' ?c2) = (Some False, None)"
    using deletionProbe_reports [where r = fadingRemote and c = ?c2 and i = "''loc1''"
        and res = None and e = "''404 Not Found''"]
    by (simp add: input_simps)
  have 4: "fst (deletionProbe ?broken ''loc1'' emptyClient) = (None, Some ''connection reset'') \<and>
      WaitForDeletion 5 3 0 (deletionProbe ?broken ''loc1'') emptyClient =
        (Some ''connection reset'', snd (deletionProbe ?broken ''loc1'' emptyClient))"
    using deletionProbe_reports [where r = ?broken
        and c = emptyClient and i = "''loc1''" and res = None and status = 500
        and e = "''connection reset''" and n = 4 and need = 3 and seen = 0]
    by (simp add: input_simps)
  show ?thesis
    using 1 2 3 4 by (simp add: s1 s2 s3)
qed

text \<open>
  C8.  Every run of the probe makes exactly one call, the read, and that call is made
  with \<^verbatim>\<open>DisableRetries\<close> set; when the probe returns the flag is false.  This holds
  for every remote, hence whether the read succeeds or fails.
\<close>

theorem deletionProbe_DisableRetries:
  "History (snd (deletionProbe r i c)) = History c @ [(GetCall i, True)] \<and>
   DisableRetries (snd (deletionProbe r i c)) = False"
  by (simp add: deletionProbe_def Get_def issue_def Let_def split: prod.splits)

section \<open>Create\<close>

text \<open>
  C3 (as amended).  A create issues the create request and, once that has succeeded
  with a non-empty identifier, records the identifier and runs the read at once, in the
  client state the create request left: there is no poll between the two.  Every
  create that returns has made at most two calls, the create request and the read's
  single fetch.
\<close>

theorem create_reads_directly:
  "(ip d \<noteq> [] \<and> expandIPauthenticationStrength hp (ip d) = Some props \<and>
    answerCreateIP r c (props\<lparr>IPBase := Some base\<rparr>) = (Some l, st, None) \<and>
    IPBase l = Some b \<and> ID b = Some i \<and> i \<noteq> []
      \<longrightarrow> authenticationStrengthResourceCreate r hp base d c =
            authenticationStrengthResourceRead r hp (d\<lparr>ResourceId := i\<rparr>)
              (issue (CreateIPCall (props\<lparr>IPBase := Some base\<rparr>)) c)) \<and>
   (ip d = [] \<and> country d \<noteq> [] \<and>
    expandCountryauthenticationStrength hp (country d) = Some props' \<and>
    answerCreateCountry r c (props'\<lparr>CountryBase := Some base\<rparr>) = (Some l', st', None) \<and>
    CountryBase l' = Some b' \<and> ID b' = Some i' \<and> i' \<noteq> []
      \<longrightarrow> authenticationStrengthResourceCreate r hp base d c =
            authenticationStrengthResourceRead r hp (d\<lparr>ResourceId := i'\<rparr>)
              (issue (CreateCountryCall (props'\<lparr>CountryBase := Some base\<rparr>)) c)) \<and>
   (authenticationStrengthResourceCreate r hp base d c = Return (ds, d', c')
      \<longrightarrow> (\<exists>new. History c' = History c @ new \<and> length new \<le> 2))"
proof (intro conjI)
  show "authenticationStrengthResourceCreate r hp base d c = Return (ds, d', c')
      \<longrightarrow> (\<exists>new. History c' = History c @ new \<and> length new \<le> 2)"
    using Create_calls by blast
qed (simp_all add: authenticationStrengthResourceCreate_def GetOk_def CreateIP_def
      CreateCountry_def createdID_def)

text \<open>
  C3 as stated fails: the create below returns without diagnostics after exactly two
  calls, the create request and the read's fetch.  No poll was made, and the read took
  place although the observed state (not trusted) had not converged to the configured
  one (trusted).
\<close>

theorem create_without_poll:
  "authenticationStrengthResourceCreate
     (exampleRemote\<lparr>answerGet := \<lambda>c i.
         (Some (IPLocation (officeLocation ''office'' False)), 200, None)\<rparr>)
     exampleHelpers \<lparr>ID = None, DisplayName = Some ''office''\<rparr>
     (officeData\<lparr>ResourceId := []\<rparr>) emptyClient =
   Return ([], officeData\<lparr>ip := [officeBlock False]\<rparr>,
           \<lparr>DisableRetries = False,
            History = [(CreateIPCall \<lparr>IPBase = Some \<lparr>ID = None, DisplayName = Some ''office''\<rparr>,
                                      IpRanges = Some [''10.0.0.0/8''],
                                      IsTrusted = Some True\<rparr>, False),
                       (GetCall ''loc1'', False)]\<rparr>)"
  by (simp add: run_defs input_simps)

text \<open>Concrete creates of an IP-based and of a country-based location.\<close>

theorem create_reads_directly_witness:
  "authenticationStrengthResourceCreate exampleRemote exampleHelpers
       \<lparr>ID = None, DisplayName = Some ''office''\<rparr> (officeData\<lparr>ResourceId := []\<rparr>) emptyClient =
     authenticationStrengthResourceRead exampleRemote exampleHelpers officeData
       \<lparr>DisableRetries = False,
        History = [(CreateIPCall \<lparr>IPBase = Some \<lparr>ID = None, DisplayName = Some ''office''\<rparr>,
                                  IpRanges = Some [''10.0.0.0/8''],
                                  IsTrusted = Some True\<rparr>, False)]\<rparr> \<and>
   authenticationStrengthResourceCreate exampleRemote exampleHelpers
       \<lparr>ID = None, DisplayName = Some ''home''\<rparr> (homeData\<lparr>ResourceId := []\<rparr>) emptyClient =
     authenticationStrengthResourceRead exampleRemote exampleHelpers homeData
       \<lparr>DisableRetries = False,
        History = [(CreateCountryCall
                      \<lparr>CountryBase = Some \<lparr>ID = None, DisplayName = Some ''home''\<rparr>,
                       CountriesAndRegions = Some [''NZ''],
                       IncludeUnknownCountriesAndRegions = Some False\<rparr>, False)]\<rparr> \<and>
   (\<exists>new. [(CreateIPCall \<lparr>IPBase = Some \<lparr>ID = None, DisplayName = Some ''office''\<rparr>,
                            IpRanges = Some [''10.0.0.0/8''],
                            IsTrusted = Some True\<rparr>, False),
            (GetCall ''loc1'', False)] = History emptyClient @ new \<and> length new \<le> 2)"
proof -
  let ?k = "(CreateIPCall \<lparr>IPBase = Some \<lparr>ID = None, DisplayName = Some ''office''\<rparr>,
                            IpRanges = Some [''10.0.0.0/8''],
                            IsTrusted = Some True\<rparr>, False)"
  note ipc = create_reads_directly [where r = exampleRemote and hp = exampleHelpers
      and base = "\<lparr>ID = None, DisplayName = Some ''office''\<rparr>"
      and d = "officeData\<lparr>ResourceId := []\<rparr>" and c = emptyClient
      and props = "\<lparr>IPBase = None, IpRanges = Some [''10.0.0.0/8''], IsTrusted = Some True\<rparr>"
      and l = "\<lparr>IPBase = Some \<lparr>ID = Some ''loc1'', DisplayName = None\<rparr>,
                IpRanges = Some [''10.0.0.0/8''], IsTrusted = Some True\<rparr>"
      and st = 201 and b = "\<lparr>ID = Some ''loc1'', DisplayName = None\<rparr>" and i = "''loc1''"
      and ds = "[]" and d' = officeData
      and c' = "\<lparr>DisableRetries = False, History = [?k, (GetCall ''loc1'', False)]\<rparr>"]
  note cc = create_reads_directly [where r = exampleRemote and hp = exampleHelpers
      and base = "\<lparr>ID = None, DisplayName = Some ''home''\<rparr>"
      and d = "homeData\<lparr>ResourceId := []\<rparr>" and c = emptyClient
      and props' = "\<lparr>CountryBase = None, CountriesAndRegions = Some [''NZ''],
                     IncludeUnknownCountriesAndRegions = Some False\<rparr>"
      and l' = "\<lparr>CountryBase = Some \<lparr>ID = Some ''loc2'', DisplayName = None\<rparr>,
                 CountriesAndRegions = Some [''NZ''],
                 IncludeUnknownCountriesAndRegions = Some False\<rparr>"
      and st' = 201 and b' = "\<lparr>ID = Some ''loc2'', DisplayName = None\<rparr>" and i' = "''loc2''"]
  have run: "authenticationStrengthResourceCreate exampleRemote exampleHelpers
       \<lparr>ID = None, DisplayName = Some ''office''\<rparr> (officeData\<lparr>ResourceId := []\<rparr>) emptyClient =
     Return ([], officeData,
             \<lparr>DisableRetries = False, History = [?k, (GetCall ''loc1'', False)]\<rparr>)"
    by (simp add: run_defs input_simps)
  have 1: "authenticationStrengthResourceCreate exampleRemote exampleHelpers
       \<lparr>ID = None, DisplayName = Some ''office''\<rparr> (officeData\<lparr>ResourceId := []\<rparr>) emptyClient =
     authenticationStrengthResourceRead exampleRemote exampleHelpers officeData
       \<lparr>DisableRetries = False, History = [?k]\<rparr>"
    using ipc by (simp add: input_simps)
  have 2: "authenticationStrengthResourceCreate exampleRemote exampleHelpers
       \<lparr>ID = None, DisplayName = Some ''home''\<rparr> (homeData\<lparr>ResourceId := []\<rparr>) emptyClient =
     authenticationStrengthResourceRead exampleRemote exampleHelpers homeData
       \<lparr>DisableRetries = False,
        History = [(CreateCountryCall
                      \<lparr>CountryBase = Some \<lparr>ID = None, DisplayName = Some ''home''\<rparr>,
                       CountriesAndRegions = Some [''NZ''],
                       IncludeUnknownCountriesAndRegions = Some False\<rparr>, False)]\<rparr>"
    using cc by (simp add: input_simps)
  have 3: "\<exists>new. [?k, (GetCall ''loc1'', False)] = History emptyClient @ new \<and> length new \<le> 2"
    using ipc run by simp
  show ?thesis using 1 2 3 by simp
qed

section \<open>Read\<close>

text \<open>
  C4.  A read whose fetch succeeds with a value that is neither of the two location
  subtypes returns no diagnostic and leaves the resource data as it was: the code
  completes silently where the claim asks for an inconsistent-response error.
\<close>

theorem read_unknown_subtype_is_silent:
  "authenticationStrengthResourceRead
     (exampleRemote\<lparr>answerGet := \<lambda>c i.
         (Some (OtherLocation ''compliantNetworkNamedLocation''), 200, None)\<rparr>)
     exampleHelpers (unsetData ''loc3'') emptyClient =
   Return ([], unsetData ''loc3'',
           \<lparr>DisableRetries = False, History = [(GetCall ''loc3'', False)]\<rparr>)"
  by (simp add: run_defs input_simps)

text \<open>
  C5.  A read whose fetch fails with status 500 and the error "connection reset by
  peer" does not return that error: the code falls through to the nil check of the
  result and reports "Bad API response", "Result is nil".
\<close>

theorem read_transport_error_is_replaced:
  "authenticationStrengthResourceRead
     (exampleRemote\<lparr>answerGet := \<lambda>c i. (None, 500, Some ''connection reset by peer'')\<rparr>)
     exampleHelpers officeData emptyClient =
   Return ([\<lparr>Cause = ''Bad API response'', AttributePath = None, Format = ''Result is nil'',
             Args = []\<rparr>],
           officeData, \<lparr>DisableRetries = False, History = [(GetCall ''loc1'', False)]\<rparr>)"
  by (simp add: run_defs input_simps)

text \<open>
  C7.  A successful read that returns an IP location with an identifier sets the
  identifier, the display name and the \<open>ip\<close> block, and nothing else: the \<open>country\<close>
  block stays as it was, so unset if it was unset.  A successful read that returns a
  country location sets the identifier, the display name and the \<open>country\<close> block, and
  the \<open>ip\<close> block stays as it was.
\<close>

theorem read_populates_matching_subtype:
  "(answerGet r c (ResourceId d) = (Some (IPLocation ipnl), st, None) \<and>
    IPBase ipnl = Some b \<and> ID b = Some i
      \<longrightarrow> authenticationStrengthResourceRead r hp d c =
            Return ([], d\<lparr>ResourceId := i, display_name := DisplayName b,
                           ip := flattenIPauthenticationStrength hp (Some ipnl)\<rparr>,
                    issue (GetCall (ResourceId d)) c)) \<and>
   (answerGet r c (ResourceId d) = (Some (CountryLocation cnl), st, None) \<and>
    CountryBase cnl = Some b' \<and> ID b' = Some i'
      \<longrightarrow> authenticationStrengthResourceRead r hp d c =
            Return ([], d\<lparr>ResourceId := i', display_name := DisplayName b',
                           country := flattenCountryauthenticationStrength hp (Some cnl)\<rparr>,
                    issue (GetCall (ResourceId d)) c))"
  by (simp add: authenticationStrengthResourceRead_def Get_def readIP_def readCountry_def)

text \<open>
  Reads into resource data with both blocks unset: the IP response leaves \<open>country\<close>
  unset, the country response leaves \<open>ip\<close> unset.
\<close>

theorem read_populates_matching_subtype_witness:
  "authenticationStrengthResourceRead exampleRemote exampleHelpers (unsetData ''loc1'')
       emptyClient =
     Return ([], \<lparr>ResourceId = ''loc1'', display_name = Some ''office'', ip = [officeBlock True],
                  country = [], HasChange_display_name = False\<rparr>,
             \<lparr>DisableRetries = False, History = [(GetCall ''loc1'', False)]\<rparr>) \<and>
   authenticationStrengthResourceRead
       (exampleRemote\<lparr>answerGet := \<lambda>c i.
           (Some (CountryLocation (homeLocation [''NZ''])), 200, None)\<rparr>)
       exampleHelpers (unsetData ''loc2'') emptyClient =
     Return ([], \<lparr>ResourceId = ''loc2'', display_name = Some ''home'', ip = [],
                  country = [homeBlock], HasChange_display_name = False\<rparr>,
             \<lparr>DisableRetries = False, History = [(GetCall ''loc2'', False)]\<rparr>)"
proof -
  have 1: "authenticationStrengthResourceRead exampleRemote exampleHelpers (unsetData ''loc1'')
       emptyClient =
     Return ([], \<lparr>ResourceId = ''loc1'', display_name = Some ''office'', ip = [officeBlock True],
                  country = [], HasChange_display_name = False\<rparr>,
             \<lparr>DisableRetries = False, History = [(GetCall ''loc1'', False)]\<rparr>)"
    using read_populates_matching_subtype [where r = exampleRemote and hp = exampleHelpers
        and d = "unsetData ''loc1''" and c = emptyClient
        and ipnl = "officeLocation ''office'' True" and st = 200
        and b = "\<lparr>ID = Some ''loc1'', DisplayName = Some ''office''\<rparr>" and i = "''loc1''"]
    by (simp add: input_simps)
  have 2: "authenticationStrengthResourceRead
       (exampleRemote\<lparr>answerGet := \<lambda>c i.
           (Some (CountryLocation (homeLocation [''NZ''])), 200, None)\<rparr>)
       exampleHelpers (unsetData ''loc2'') emptyClient =
     Return ([], \<lparr>ResourceId = ''loc2'', display_name = Some ''home'', ip = [],
                  country = [homeBlock], HasChange_display_name = False\<rparr>,
             \<lparr>DisableRetries = False, History = [(GetCall ''loc2'', False)]\<rparr>)"
    using read_populates_matching_subtype [where
        r = "exampleRemote\<lparr>answerGet := \<lambda>c i.
           (Some (CountryLocation (homeLocation [''NZ''])), 200, None)\<rparr>"
        and hp = exampleHelpers
        and d = "unsetData ''loc2''" and c = emptyClient and cnl = "homeLocation [''NZ'']"
        and st = 200
        and b' = "\<lparr>ID = Some ''loc2'', DisplayName = Some ''home''\<rparr>" and i' = "''loc2''"]
    by (simp add: input_simps)
  show ?thesis using 1 2 by simp
qed

section \<open>Delete\<close>





section \<open>The generated client: update\<close>

text \<open>
  C9.  An \<^verbatim>\<open>Update\<close> of a policy whose ID is nil returns status 0 and the error
  "cannot update AuthenticationStrengthPolicy with nil ID" at once: whatever the
  marshaller and the remote would do, the request history is returned as it was, so
  no request was issued.
\<close>

theorem Update_nil_ID:
  "PolicyID policy = None \<Longrightarrow>
   Update marshal remote policy h =
     ((0, Some ''cannot update AuthenticationStrengthPolicy with nil ID''), h)"
  by (simp add: Update_def)

text \<open>An update of a policy without ID against a remote that would accept any request.\<close>

theorem Update_nil_ID_witness:
  "PolicyID \<lparr>PolicyID = None, PolicyFields = ''strong''\<rparr> = None \<and>
   Update (\<lambda>p. Inr (PolicyFields p)) (\<lambda>h i. (204, None))
       \<lparr>PolicyID = None, PolicyFields = ''strong''\<rparr> [] =
     ((0, Some ''cannot update AuthenticationStrengthPolicy with nil ID''), [])"
  using Update_nil_ID [of "\<lparr>PolicyID = None, PolicyFields = ''strong''\<rparr>"
      "\<lambda>p. Inr (PolicyFields p)" "\<lambda>h i. (204, None)" "[]"]
  by simp

end
